theory Spec2Isabelle
  imports Main
begin

section \<open>The nullable string of package null\<close>

text \<open>
  The package is one Go file, \<^verbatim>\<open>string.go\<close>. Its type \<^verbatim>\<open>String\<close> embeds
  \<^verbatim>\<open>sql.NullString\<close>, a struct of a string and a validity flag. Go strings and byte slices
  are byte sequences, so both are modelled by \<^typ>\<open>string\<close> (a list of 8-bit characters),
  and the conversions \<^verbatim>\<open>string(text)\<close> and \<^verbatim>\<open>[]byte(s)\<close> are the identity.
\<close>

subsection \<open>Data\<close>

text \<open>\<^verbatim>\<open>sql.NullString\<close>: \<^verbatim>\<open>struct { String string; Valid bool }\<close>.\<close>

record NullString =
  String :: string
  Valid :: bool

text \<open>
  \<^verbatim>\<open>type String struct { sql.NullString }\<close>: the embedded struct is the only field and
  its fields are promoted (\<^verbatim>\<open>s.String\<close>, \<^verbatim>\<open>s.Valid\<close>), so the wrapper is the record itself.
\<close>

type_synonym String = NullString

text \<open>
  The errors of \<^verbatim>\<open>encoding/json\<close> that the package can meet: a syntax error of the
  input, and a JSON value that does not fit the Go type it is decoded into (the payload
  describes the JSON value, as the field \<^verbatim>\<open>Value\<close> of Go's \<^verbatim>\<open>UnmarshalTypeError\<close>
  does). A Go \<^verbatim>\<open>error\<close> result is an \<open>error option\<close>, with \<open>None\<close> for \<^verbatim>\<open>nil\<close>.
\<close>

datatype error = SyntaxError | UnmarshalTypeError string

text \<open>The zero value of the struct, as \<^verbatim>\<open>var s String\<close> gives it.\<close>

definition zero_String :: String where
  "zero_String = \<lparr>String = '''', Valid = False\<rparr>"

section \<open>The standard library's JSON decoder, as the package calls it\<close>

text \<open>
  \<^verbatim>\<open>UnmarshalJSON\<close> calls \<^verbatim>\<open>json.Unmarshal\<close> of Go's standard library twice: once
  into an empty interface and once into the embedded \<^verbatim>\<open>sql.NullString\<close>. The library is
  not part of the package; this section models what these two calls do. The library first
  checks the whole input against the JSON grammar and touches the target only when the
  input is valid; it then decodes the value into the target.
\<close>

subsection \<open>JSON texts\<close>

text \<open>
  A parsed JSON text. A number keeps its literal, a string is stored unquoted, and an
  object keeps its members in the order of the input.
\<close>

datatype json =
    JNull
  | JBool bool
  | JNumber string
  | JString string
  | JArray "json list"
  | JObject "(string \<times> json) list"

datatype token =
    LBrace | RBrace | LBracket | RBracket | Colon | Comma
  | TString string | TNumber string | TTrue | TFalse | TNull

definition isSpace :: "char \<Rightarrow> bool" where
  "isSpace c = (c = CHR '' '' \<or> c = CHR 0x09 \<or> c = CHR 0x0D \<or> c = CHR 0x0A)"

definition isDigit :: "char \<Rightarrow> bool" where
  "isDigit c = (c \<in> set ''0123456789'')"

definition isHex :: "char \<Rightarrow> bool" where
  "isHex c = (c \<in> set ''0123456789abcdefABCDEF'')"

text \<open>The characters that may follow a backslash, other than \<open>u\<close>.\<close>

definition isEscape :: "char \<Rightarrow> bool" where
  "isEscape c =
     (c \<in> set [CHR ''b'', CHR ''f'', CHR ''n'', CHR ''r'', CHR ''t'', CHR 0x5C, CHR ''/'', CHR 0x22])"

text \<open>
  The body of a string literal, read after its opening quote: the raw bytes up to the
  closing quote (escapes still in place) and the input after it. A control character, a
  wrong escape or a missing closing quote is a syntax error. Bytes from \<open>0x80\<close> on pass:
  the grammar check does not look at the UTF-8 encoding.
\<close>

fun scan_string :: "string \<Rightarrow> (string \<times> string) option" where
  "scan_string [] = None"
| "scan_string (c # cs) =
     (if c = CHR 0x22 then Some ([], cs)
      else if c = CHR 0x5C then
        (case cs of
           [] \<Rightarrow> None
         | e # r \<Rightarrow>
             if isEscape e then
               (case scan_string r of
                  None \<Rightarrow> None
                | Some (b, rest) \<Rightarrow> Some (c # e # b, rest))
             else if e = CHR ''u'' \<and> 4 \<le> length r \<and> list_all isHex (take 4 r) then
               (case scan_string (drop 4 r) of
                  None \<Rightarrow> None
                | Some (b, rest) \<Rightarrow> Some (c # e # take 4 r @ b, rest))
             else None)
      else if (of_char c :: nat) < 0x20 then None
      else
        (case scan_string cs of
           None \<Rightarrow> None
         | Some (b, rest) \<Rightarrow> Some (c # b, rest)))"

text \<open>
  A number literal: an optional minus sign, an integer part (\<open>0\<close>, or a non-zero digit and
  more digits), an optional fraction (a point and at least one digit) and an optional
  exponent (\<open>e\<close> or \<open>E\<close>, an optional sign, at least one digit).
\<close>

definition scan_int :: "string \<Rightarrow> (string \<times> string) option" where
  "scan_int cs =
     (case cs of
        [] \<Rightarrow> None
      | d # r \<Rightarrow>
          if d = CHR ''0'' then Some ([d], r)
          else if isDigit d then Some (d # takeWhile isDigit r, dropWhile isDigit r)
          else None)"

definition scan_digits1 :: "string \<Rightarrow> (string \<times> string) option" where
  "scan_digits1 cs =
     (if takeWhile isDigit cs = [] then None
      else Some (takeWhile isDigit cs, dropWhile isDigit cs))"

definition scan_frac :: "string \<Rightarrow> (string \<times> string) option" where
  "scan_frac cs =
     (case cs of
        [] \<Rightarrow> Some ([], cs)
      | c # r \<Rightarrow>
          if c = CHR ''.'' then
            (case scan_digits1 r of
               None \<Rightarrow> None
             | Some (ds, rest) \<Rightarrow> Some (c # ds, rest))
          else Some ([], cs))"

definition scan_exp :: "string \<Rightarrow> (string \<times> string) option" where
  "scan_exp cs =
     (case cs of
        [] \<Rightarrow> Some ([], cs)
      | c # r \<Rightarrow>
          if c = CHR ''e'' \<or> c = CHR ''E'' then
            (let sign = (if take 1 r = ''+'' \<or> take 1 r = ''-'' then take 1 r else [])
             in case scan_digits1 (drop (length sign) r) of
                  None \<Rightarrow> None
                | Some (ds, rest) \<Rightarrow> Some (c # sign @ ds, rest))
          else Some ([], cs))"

definition scan_number :: "string \<Rightarrow> (string \<times> string) option" where
  "scan_number cs =
     (let sign = (if take 1 cs = ''-'' then take 1 cs else [])
      in case scan_int (drop (length sign) cs) of
           None \<Rightarrow> None
         | Some (ip, r1) \<Rightarrow>
             (case scan_frac r1 of
                None \<Rightarrow> None
              | Some (fp, r2) \<Rightarrow>
                  (case scan_exp r2 of
                     None \<Rightarrow> None
                   | Some (ep, r3) \<Rightarrow> Some (sign @ ip @ fp @ ep, r3))))"

subsection \<open>Unquoting a string literal\<close>

text \<open>
  The library's \<^verbatim>\<open>unquote\<close> turns the body of a string literal into the Go string:
  escapes are replaced, a \<open>u\<close> escape becomes the UTF-8 encoding of its code point (a
  surrogate pair becomes one code point, a lone surrogate the replacement character
  \<open>U+FFFD\<close>), and a byte sequence that is not valid UTF-8 is replaced, byte by byte, by
  \<open>U+FFFD\<close>.
\<close>

definition hexval :: "char \<Rightarrow> nat" where
  "hexval c =
     (if isDigit c then of_char c - 48
      else if c \<in> set ''abcdef'' then of_char c - 87
      else of_char c - 55)"

text \<open>\<^verbatim>\<open>getu4\<close>: the code unit of a leading \<open>u\<close> escape (backslash, \<open>u\<close>, four hex digits), if there is one.\<close>

definition getu4 :: "string \<Rightarrow> nat option" where
  "getu4 s =
     (if 6 \<le> length s \<and> take 2 s = [CHR 0x5C, CHR ''u''] \<and> list_all isHex (take 4 (drop 2 s))
      then Some (foldl (\<lambda>r c. r * 16 + hexval c) 0 (take 4 (drop 2 s)))
      else None)"

definition RuneError :: nat where
  "RuneError = 0xFFFD"

definition IsSurrogate :: "nat \<Rightarrow> bool" where
  "IsSurrogate r = (0xD800 \<le> r \<and> r < 0xE000)"

text \<open>\<^verbatim>\<open>utf16.DecodeRune\<close>: the code point of a surrogate pair, or \<open>U+FFFD\<close>.\<close>

definition DecodeRune16 :: "nat \<Rightarrow> nat option \<Rightarrow> nat" where
  "DecodeRune16 r1 r2 =
     (case r2 of
        None \<Rightarrow> RuneError
      | Some r2 \<Rightarrow>
          if 0xD800 \<le> r1 \<and> r1 < 0xDC00 \<and> 0xDC00 \<le> r2 \<and> r2 < 0xE000
          then (r1 - 0xD800) * 1024 + (r2 - 0xDC00) + 0x10000
          else RuneError)"

definition byte :: "nat \<Rightarrow> char" where
  "byte n = char_of n"

text \<open>\<^verbatim>\<open>utf8.EncodeRune\<close>.\<close>

definition EncodeRune :: "nat \<Rightarrow> string" where
  "EncodeRune r =
     (if r \<le> 0x7F then [byte r]
      else if r \<le> 0x7FF then [byte (0xC0 + r div 64), byte (0x80 + r mod 64)]
      else if 0x10FFFF < r \<or> IsSurrogate r then [byte 0xEF, byte 0xBF, byte 0xBD]
      else if r \<le> 0xFFFF then
        [byte (0xE0 + r div 4096), byte (0x80 + r div 64 mod 64), byte (0x80 + r mod 64)]
      else
        [byte (0xF0 + r div 262144), byte (0x80 + r div 4096 mod 64),
         byte (0x80 + r div 64 mod 64), byte (0x80 + r mod 64)])"

definition byte_in :: "nat \<Rightarrow> nat \<Rightarrow> string \<Rightarrow> nat \<Rightarrow> bool" where
  "byte_in lo hi p i = (i < length p \<and> lo \<le> of_char (p ! i) \<and> of_char (p ! i) \<le> hi)"

text \<open>
  The length of the valid UTF-8 sequence of more than one byte that \<open>p\<close> starts with, or
  \<open>0\<close> when there is none (the case in which \<^verbatim>\<open>utf8.DecodeRune\<close> returns \<open>U+FFFD\<close> and
  width 1).
\<close>

definition utf8_size :: "string \<Rightarrow> nat" where
  "utf8_size p =
     (case p of
        [] \<Rightarrow> 0
      | p0 # _ \<Rightarrow>
          let b = (of_char p0 :: nat);
              sz = (if 0xC2 \<le> b \<and> b \<le> 0xDF then 2
                    else if 0xE0 \<le> b \<and> b \<le> 0xEF then 3
                    else if 0xF0 \<le> b \<and> b \<le> 0xF4 then 4
                    else 0);
              lo = (if b = 0xE0 then 0xA0 else if b = 0xF0 then 0x90 else 0x80);
              hi = (if b = 0xED then 0x9F else if b = 0xF4 then 0x8F else 0xBF)
          in if sz = 0 \<or> length p < sz then 0
             else if \<not> byte_in lo hi p 1 then 0
             else if sz = 2 then 2
             else if \<not> byte_in 0x80 0xBF p 2 then 0
             else if sz = 3 then 3
             else if \<not> byte_in 0x80 0xBF p 3 then 0
             else 4)"

definition unescape :: "char \<Rightarrow> char" where
  "unescape e =
     (if e = CHR ''b'' then CHR 0x08
      else if e = CHR ''f'' then CHR 0x0C
      else if e = CHR ''n'' then CHR 0x0A
      else if e = CHR ''r'' then CHR 0x0D
      else if e = CHR ''t'' then CHR 0x09
      else e)"

text \<open>
  A valid multi-byte sequence is decoded and encoded again by the library, which gives
  the same bytes: the model copies them.
\<close>

fun unquote :: "string \<Rightarrow> string" where
  "unquote [] = []"
| "unquote (c # cs) =
     (if c = CHR 0x5C then
        (case cs of
           [] \<Rightarrow> []
         | e # r \<Rightarrow>
             if e = CHR ''u'' then
               (case getu4 (c # cs) of
                  None \<Rightarrow> []
                | Some rr \<Rightarrow>
                    if IsSurrogate rr then
                      (let dec = DecodeRune16 rr (getu4 (drop 4 r))
                       in if dec \<noteq> RuneError then EncodeRune dec @ unquote (drop 10 r)
                          else EncodeRune RuneError @ unquote (drop 4 r))
                    else EncodeRune rr @ unquote (drop 4 r))
             else unescape e # unquote r)
      else if (of_char c :: nat) < 0x80 then c # unquote cs
      else
        (let size = utf8_size (c # cs)
         in if size = 0 then EncodeRune RuneError @ unquote cs
            else take size (c # cs) @ unquote (drop (size - 1) cs)))"

subsection \<open>Tokens\<close>

text \<open>Each scanner consumes input, so the tokenizer terminates.\<close>

lemma scan_string_length: "scan_string cs = Some (b, rest) \<Longrightarrow> length rest < length cs"
proof (induction cs arbitrary: b rest rule: scan_string.induct)
  case 1
  then show ?case by simp
next
  case (2 c cs)
  show ?case
  proof (cases "c = CHR 0x22")
    case True
    with 2 show ?thesis by simp
  next
    case nq: False
    show ?thesis
    proof (cases "c = CHR 0x5C")
      case True
      show ?thesis
      proof (cases cs)
        case Nil
        with 2 nq True show ?thesis by simp
      next
        case (Cons e r)
        show ?thesis
        proof (cases "isEscape e")
          case esc: True
          from "2.prems" nq True Cons esc obtain b' where "scan_string r = Some (b', rest)"
            by (auto split: option.splits)
          from "2.IH"(1) [OF nq True Cons esc this] Cons show ?thesis by simp
        next
          case nesc: False
          show ?thesis
          proof (cases "e = CHR ''u'' \<and> 4 \<le> length r \<and> list_all isHex (take 4 r)")
            case u: True
            from "2.prems" nq True Cons nesc u
            obtain b' where "scan_string (drop 4 r) = Some (b', rest)"
              by (auto split: option.splits)
            from "2.IH"(2) [OF nq True Cons nesc u this] Cons show ?thesis by simp
          next
            case False
            with "2.prems" nq True Cons nesc show ?thesis by (auto split: option.splits)
          qed
        qed
      qed
    next
      case nb: False
      show ?thesis
      proof (cases "(of_char c :: nat) < 0x20")
        case True
        with "2.prems" nq nb show ?thesis by simp
      next
        case False
        from "2.prems" nq nb False obtain b' where "scan_string cs = Some (b', rest)"
          by (auto split: option.splits)
        from "2.IH"(3) [OF nq nb False this] show ?thesis by simp
      qed
    qed
  qed
qed

lemma scan_digits1_length: "scan_digits1 cs = Some (ds, rest) \<Longrightarrow> length rest < length cs"
  by (cases cs) (auto simp: scan_digits1_def length_dropWhile_le less_Suc_eq_le split: if_splits)

lemma scan_int_length: "scan_int cs = Some (ds, rest) \<Longrightarrow> length rest < length cs"
  by (cases cs) (auto simp: scan_int_def length_dropWhile_le less_Suc_eq_le split: if_splits)

lemma scan_frac_length: "scan_frac cs = Some (ds, rest) \<Longrightarrow> length rest \<le> length cs"
  by (cases cs)
    (auto simp: scan_frac_def split: if_splits option.splits dest!: scan_digits1_length)

lemma scan_exp_length: "scan_exp cs = Some (ds, rest) \<Longrightarrow> length rest \<le> length cs"
  by (cases cs)
    (auto simp: scan_exp_def Let_def split: if_splits option.splits dest!: scan_digits1_length)

lemma scan_number_length:
  assumes "scan_number cs = Some (l, rest)"
  shows "length rest < length cs"
proof -
  define sign where "sign = (if take 1 cs = ''-'' then take 1 cs else [])"
  from assms obtain ip r1 fp r2 ep where
    1: "scan_int (drop (length sign) cs) = Some (ip, r1)" and
    2: "scan_frac r1 = Some (fp, r2)" and
    3: "scan_exp r2 = Some (ep, rest)"
    by (auto simp: scan_number_def Let_def sign_def split: option.splits)
  from scan_int_length [OF 1] scan_frac_length [OF 2] scan_exp_length [OF 3]
  show ?thesis by simp
qed

text \<open>
  The tokens of the input, or \<open>None\<close> when some byte starts no token. White space
  (space, tab, carriage return, line feed) separates tokens and is dropped.
\<close>

function lex :: "string \<Rightarrow> token list option" where
  "lex [] = Some []"
| "lex (c # cs) =
     (if isSpace c then lex cs
      else if c = CHR ''{'' then map_option (Cons LBrace) (lex cs)
      else if c = CHR ''}'' then map_option (Cons RBrace) (lex cs)
      else if c = CHR ''['' then map_option (Cons LBracket) (lex cs)
      else if c = CHR '']'' then map_option (Cons RBracket) (lex cs)
      else if c = CHR '':'' then map_option (Cons Colon) (lex cs)
      else if c = CHR '','' then map_option (Cons Comma) (lex cs)
      else if c = CHR 0x22 then
        (case scan_string cs of
           None \<Rightarrow> None
         | Some (b, rest) \<Rightarrow> map_option (Cons (TString (unquote b))) (lex rest))
      else if c = CHR ''-'' \<or> isDigit c then
        (case scan_number (c # cs) of
           None \<Rightarrow> None
         | Some (l, rest) \<Rightarrow> map_option (Cons (TNumber l)) (lex rest))
      else if take 4 (c # cs) = ''true'' then map_option (Cons TTrue) (lex (drop 3 cs))
      else if take 5 (c # cs) = ''false'' then map_option (Cons TFalse) (lex (drop 4 cs))
      else if take 4 (c # cs) = ''null'' then map_option (Cons TNull) (lex (drop 3 cs))
      else None)"
  by pat_completeness auto
termination
proof (relation "measure length", goal_cases)
  case 1
  show ?case by simp
next
  case (9 c cs x2 b rest)
  then show ?case using scan_string_length [of cs b rest] by simp
next
  case (10 c cs x2 l rest)
  then show ?case using scan_number_length [of "c # cs" l rest] by simp
qed simp_all

subsection \<open>The grammar\<close>

text \<open>
  The library checks the grammar with a pushdown machine; the model runs the same machine
  over the tokens and builds the value on the way. A frame of the stack is an array or an
  object under construction; an object frame holds the key that waits for its value.
\<close>

datatype frame = InArray "json list" | InObject "(string \<times> json) list" "string option"

datatype pstate =
    BeginValue | BeginValueOrEmpty | BeginStringOrEmpty | BeginString
  | AfterKey | EndValue | EndTop json

text \<open>Arrays and objects nest at most this deep; a deeper input is a syntax error.\<close>

definition maxNestingDepth :: nat where
  "maxNestingDepth = 10000"

text \<open>A value is complete: it is the whole text, an array element or an object member.\<close>

fun endValue :: "json \<Rightarrow> frame list \<Rightarrow> (pstate \<times> frame list) option" where
  "endValue v [] = Some (EndTop v, [])"
| "endValue v (InArray xs # st) = Some (EndValue, InArray (xs @ [v]) # st)"
| "endValue v (InObject ms (Some k) # st) = Some (EndValue, InObject (ms @ [(k, v)]) None # st)"
| "endValue v (InObject ms None # st) = None"

fun beginValue :: "token \<Rightarrow> frame list \<Rightarrow> (pstate \<times> frame list) option" where
  "beginValue LBrace st =
     (if length st < maxNestingDepth then Some (BeginStringOrEmpty, InObject [] None # st)
      else None)"
| "beginValue LBracket st =
     (if length st < maxNestingDepth then Some (BeginValueOrEmpty, InArray [] # st)
      else None)"
| "beginValue (TString x) st = endValue (JString x) st"
| "beginValue (TNumber l) st = endValue (JNumber l) st"
| "beginValue TTrue st = endValue (JBool True) st"
| "beginValue TFalse st = endValue (JBool False) st"
| "beginValue TNull st = endValue JNull st"
| "beginValue _ st = None"

fun beginString :: "token \<Rightarrow> frame list \<Rightarrow> (pstate \<times> frame list) option" where
  "beginString (TString k) (InObject ms None # st) = Some (AfterKey, InObject ms (Some k) # st)"
| "beginString _ _ = None"

text \<open>After a value inside an array or an object: a comma, or the closing bracket.\<close>

fun endContainer :: "token \<Rightarrow> frame list \<Rightarrow> (pstate \<times> frame list) option" where
  "endContainer t (InArray xs # st) =
     (if t = Comma then Some (BeginValue, InArray xs # st)
      else if t = RBracket then endValue (JArray xs) st
      else None)"
| "endContainer t (InObject ms None # st) =
     (if t = Comma then Some (BeginString, InObject ms None # st)
      else if t = RBrace then endValue (JObject ms) st
      else None)"
| "endContainer t _ = None"

fun step :: "pstate \<times> frame list \<Rightarrow> token \<Rightarrow> (pstate \<times> frame list) option" where
  "step (BeginValue, st) t = beginValue t st"
| "step (BeginValueOrEmpty, st) t =
     (if t = RBracket then endContainer t st else beginValue t st)"
| "step (BeginStringOrEmpty, st) t =
     (if t = RBrace then endContainer t st else beginString t st)"
| "step (BeginString, st) t = beginString t st"
| "step (AfterKey, st) t = (if t = Colon then Some (BeginValue, st) else None)"
| "step (EndValue, st) t = endContainer t st"
| "step (EndTop v, st) t = None"

fun steps :: "pstate \<times> frame list \<Rightarrow> token list \<Rightarrow> (pstate \<times> frame list) option" where
  "steps s [] = Some s"
| "steps s (t # ts) = (case step s t of None \<Rightarrow> None | Some s' \<Rightarrow> steps s' ts)"

text \<open>
  The value of a JSON text, or \<open>None\<close> when the text is not valid JSON (the library's
  \<^verbatim>\<open>checkValid\<close> fails): the machine must end after exactly one value.
\<close>

definition json_parse :: "string \<Rightarrow> json option" where
  "json_parse data =
     (case lex data of
        None \<Rightarrow> None
      | Some ts \<Rightarrow>
          (case steps (BeginValue, []) ts of
             Some (EndTop v, _) \<Rightarrow> Some v
           | _ \<Rightarrow> None))"

subsection \<open>Decoding into an empty interface\<close>

text \<open>
  The dynamic values that \<^verbatim>\<open>json.Unmarshal\<close> stores into an \<^verbatim>\<open>interface{}\<close>:
  \<^verbatim>\<open>nil\<close>, \<^verbatim>\<open>bool\<close>, \<^verbatim>\<open>float64\<close>, \<^verbatim>\<open>string\<close>, \<^verbatim>\<open>[]interface{}\<close> and
  \<^verbatim>\<open>map[string]interface{}\<close>. A \<^verbatim>\<open>float64\<close> is stood for by the number literal it was
  read from, and a map by its members in input order (Go keeps the last value of a
  repeated key); the package looks at neither.
\<close>

datatype iface =
    INil
  | IBool bool
  | IFloat64 string
  | IString string
  | ISlice "iface list"
  | IMap "(string \<times> iface) list"

definition digits_val :: "string \<Rightarrow> int" where
  "digits_val ds = foldl (\<lambda>r c. r * 10 + (of_char c - 48)) 0 ds"

text \<open>A number literal as \<open>m * 10 ^ e\<close>, sign dropped.\<close>

definition decimal_parts :: "string \<Rightarrow> int \<times> int" where
  "decimal_parts lit =
     (let notE = (\<lambda>c. c \<noteq> CHR ''e'' \<and> c \<noteq> CHR ''E'');
          body = takeWhile notE lit;
          ex = drop 1 (dropWhile notE lit);
          m = digits_val (filter isDigit body);
          fl = length (filter isDigit (dropWhile (\<lambda>c. c \<noteq> CHR ''.'') body));
          e = digits_val (filter isDigit ex)
      in (m, (if take 1 ex = ''-'' then - e else e) - int fl))"

text \<open>
  \<^verbatim>\<open>strconv.ParseFloat\<close> fails with a range error when the number rounds to an infinite
  \<^verbatim>\<open>float64\<close>: when its magnitude is at least \<open>2 ^ 1024 - 2 ^ 970\<close>, half way between
  the largest \<^verbatim>\<open>float64\<close> and \<open>2 ^ 1024\<close>.
\<close>

definition float64_overflows :: "string \<Rightarrow> bool" where
  "float64_overflows lit =
     (let (m, e) = decimal_parts lit;
          limit = 2 ^ 1024 - 2 ^ 970
      in if 0 \<le> e then limit \<le> m * 10 ^ nat e else limit * 10 ^ nat (- e) \<le> m)"

text \<open>
  A number out of range leaves \<^verbatim>\<open>nil\<close> in its place and records an error. This is the
  behaviour of the classic \<^verbatim>\<open>encoding/json\<close> decoder, which the section follows
  throughout; a toolchain that routes \<^verbatim>\<open>json.Unmarshal\<close> through the later v2 engine
  keeps a \<^verbatim>\<open>float64\<close> there instead. For \<open>UnmarshalJSON\<close> the two differ only in
  whether a top-level number out of range takes the \<^verbatim>\<open>nil\<close> case or matches no case:
  either way no error is returned, and the value is invalid whenever its string is empty.
\<close>

fun valueInterface :: "json \<Rightarrow> iface" where
  "valueInterface JNull = INil"
| "valueInterface (JBool b) = IBool b"
| "valueInterface (JNumber l) = (if float64_overflows l then INil else IFloat64 l)"
| "valueInterface (JString x) = IString x"
| "valueInterface (JArray xs) = ISlice (map valueInterface xs)"
| "valueInterface (JObject ms) = IMap (map (\<lambda>m. (fst m, valueInterface (snd m))) ms)"

fun number_errors :: "json \<Rightarrow> error list" where
  "number_errors (JNumber l) =
     (if float64_overflows l then [UnmarshalTypeError (''number '' @ l)] else [])"
| "number_errors (JArray xs) = concat (map number_errors xs)"
| "number_errors (JObject ms) = concat (map (\<lambda>m. number_errors (snd m)) ms)"
| "number_errors _ = []"

text \<open>
  \<^verbatim>\<open>json.Unmarshal(data, &v)\<close> for a fresh \<^verbatim>\<open>var v interface{}\<close>: the value left in
  \<^verbatim>\<open>v\<close> and the error returned. On a syntax error \<^verbatim>\<open>v\<close> is not touched and stays
  \<^verbatim>\<open>nil\<close>; otherwise the error is the first one recorded.
\<close>

definition Unmarshal_interface :: "string \<Rightarrow> iface \<times> error option" where
  "Unmarshal_interface data =
     (case json_parse data of
        None \<Rightarrow> (INil, Some SyntaxError)
      | Some j \<Rightarrow>
          (valueInterface j,
           case number_errors j of [] \<Rightarrow> None | e # _ \<Rightarrow> Some e))"

subsection \<open>Decoding into the struct\<close>

text \<open>
  A key of the object names a field when it is the field's name, or equals it after
  case folding. The library folds ASCII letters to upper case and every other character
  to the least character of its Unicode case orbit; among the characters outside ASCII
  only the long s (\<open>U+017F\<close>, bytes \<open>C5 BF\<close>) and the Kelvin sign (\<open>U+212A\<close>, bytes
  \<open>E2 84 AA\<close>) fold into ASCII, to \<open>S\<close> and \<open>K\<close>. The model leaves the other bytes.
\<close>

definition toUpper :: "char \<Rightarrow> char" where
  "toUpper c =
     (if (97::nat) \<le> of_char c \<and> of_char c \<le> (122::nat) then char_of (of_char c - (32::nat))
      else c)"

fun foldName :: "string \<Rightarrow> string" where
  "foldName [] = []"
| "foldName (c # cs) =
     (if take 2 (c # cs) = [CHR 0xC5, CHR 0xBF] then CHR ''S'' # foldName (drop 1 cs)
      else if take 3 (c # cs) = [CHR 0xE2, CHR 0x84, CHR 0xAA] then
        CHR ''K'' # foldName (drop 2 cs)
      else toUpper c # foldName cs)"

datatype ns_field = Field_String | Field_Valid

definition lookup_field :: "string \<Rightarrow> ns_field option" where
  "lookup_field key =
     (if key = ''String'' then Some Field_String
      else if key = ''Valid'' then Some Field_Valid
      else if foldName key = foldName ''String'' then Some Field_String
      else if foldName key = foldName ''Valid'' then Some Field_Valid
      else None)"

definition json_kind :: "json \<Rightarrow> string" where
  "json_kind j =
     (case j of
        JNull \<Rightarrow> ''null''
      | JBool _ \<Rightarrow> ''bool''
      | JNumber _ \<Rightarrow> ''number''
      | JString _ \<Rightarrow> ''string''
      | JArray _ \<Rightarrow> ''array''
      | JObject _ \<Rightarrow> ''object'')"

text \<open>The decoder keeps the first error and goes on.\<close>

definition saveError :: "error option \<Rightarrow> error \<Rightarrow> error option" where
  "saveError saved e = (case saved of None \<Rightarrow> Some e | Some _ \<Rightarrow> saved)"

text \<open>
  One member of the object: a JSON string is stored into \<^verbatim>\<open>String\<close> and a JSON boolean
  into \<^verbatim>\<open>Valid\<close>; \<^verbatim>\<open>null\<close> leaves the field as it is; any other value is a type error
  and leaves the field as it is; a key that names no field is skipped.
\<close>

definition store_member ::
  "NullString \<times> error option \<Rightarrow> string \<times> json \<Rightarrow> NullString \<times> error option" where
  "store_member st m =
     (let (ns, saved) = st; (key, v) = m
      in case lookup_field key of
           None \<Rightarrow> (ns, saved)
         | Some Field_String \<Rightarrow>
             (case v of
                JString x \<Rightarrow> (ns\<lparr>String := x\<rparr>, saved)
              | JNull \<Rightarrow> (ns, saved)
              | _ \<Rightarrow> (ns, saveError saved (UnmarshalTypeError (json_kind v))))
         | Some Field_Valid \<Rightarrow>
             (case v of
                JBool b \<Rightarrow> (ns\<lparr>Valid := b\<rparr>, saved)
              | JNull \<Rightarrow> (ns, saved)
              | _ \<Rightarrow> (ns, saveError saved (UnmarshalTypeError (json_kind v)))))"

text \<open>
  \<^verbatim>\<open>json.Unmarshal(data, &ns)\<close> for \<^verbatim>\<open>ns\<close> of type \<^verbatim>\<open>sql.NullString\<close>, which has
  no decoding method of its own: the struct after the call and the error returned. Fields
  that the object does not mention keep what they held.
\<close>

definition Unmarshal_NullString :: "string \<Rightarrow> NullString \<Rightarrow> NullString \<times> error option" where
  "Unmarshal_NullString data ns =
     (case json_parse data of
        None \<Rightarrow> (ns, Some SyntaxError)
      | Some j \<Rightarrow>
          (case j of
             JObject ms \<Rightarrow> foldl store_member (ns, None) ms
           | JNull \<Rightarrow> (ns, None)
           | _ \<Rightarrow> (ns, Some (UnmarshalTypeError (json_kind j)))))"

section \<open>The package\<close>

subsection \<open>Constructors\<close>

definition NewString :: "string \<Rightarrow> bool \<Rightarrow> String" where
  "NewString s valid = \<lparr>String = s, Valid = valid\<rparr>"

definition StringFrom :: "string \<Rightarrow> String" where
  "StringFrom s = NewString s (s \<noteq> '''')"

text \<open>A \<^verbatim>\<open>*string\<close> is an optional string: \<open>None\<close> is the nil pointer.\<close>

definition StringFromPtr :: "string option \<Rightarrow> String" where
  "StringFromPtr s =
     (case s of
        None \<Rightarrow> NewString '''' False
      | Some x \<Rightarrow> NewString x (x \<noteq> ''''))"

subsection \<open>JSON decoding\<close>

text \<open>
  The receiver is a pointer: the updated struct is returned beside the error. The error
  of the first \<^verbatim>\<open>json.Unmarshal\<close> is dropped, as in the source. The type switch has the
  cases \<^verbatim>\<open>string\<close>, \<^verbatim>\<open>map[string]interface{}\<close> and \<^verbatim>\<open>nil\<close>; the \<^verbatim>\<open>nil\<close> case
  returns at once, every other value (also one that matches no case) goes on to the two
  statements after the switch, \<open>after_switch\<close>, with \<^verbatim>\<open>err\<close> still \<^verbatim>\<open>nil\<close> unless the
  map case assigned it.
\<close>

definition UnmarshalJSON :: "String \<Rightarrow> string \<Rightarrow> String \<times> error option" where
  "UnmarshalJSON s data =
     (let v = fst (Unmarshal_interface data);
          after_switch = (\<lambda>(s, err). (s\<lparr>Valid := (err = None \<and> String s \<noteq> '''')\<rparr>, err))
      in case v of
           IString x \<Rightarrow> after_switch (s\<lparr>String := x\<rparr>, None)
         | IMap m \<Rightarrow> after_switch (Unmarshal_NullString data s)
         | INil \<Rightarrow> (s\<lparr>Valid := False\<rparr>, None)
         | _ \<Rightarrow> after_switch (s, None))"

subsection \<open>Text encoding and accessors\<close>

definition MarshalText :: "String \<Rightarrow> string \<times> error option" where
  "MarshalText s = (if \<not> Valid s then ([], None) else (String s, None))"

definition UnmarshalText :: "String \<Rightarrow> string \<Rightarrow> String \<times> error option" where
  "UnmarshalText s text =
     (let s = s\<lparr>String := text\<rparr>;
          s = s\<lparr>Valid := (String s \<noteq> '''')\<rparr>
      in (s, None))"

definition Ptr :: "String \<Rightarrow> string option" where
  "Ptr s = (if \<not> Valid s then None else Some (String s))"

definition IsZero :: "String \<Rightarrow> bool" where
  "IsZero s = (\<not> Valid s \<or> String s = '''')"

subsection \<open>The invariant of the data model\<close>

text \<open>An empty string is never valid: \<^verbatim>\<open>valid == false\<close> whenever \<^verbatim>\<open>value == ""\<close>.\<close>

definition normalized :: "String \<Rightarrow> bool" where
  "normalized s = (String s = '''' \<longrightarrow> \<not> Valid s)"

section \<open>Properties\<close>

subsection \<open>JSON decoding\<close>

text \<open>
  \<open>UnmarshalJSON\<close> by the shape of the input: the type switch and the two statements
  after it, with the first call of the library unfolded.
\<close>

lemma UnmarshalJSON_by_shape:
  "UnmarshalJSON s data =
     (case json_parse data of
        None \<Rightarrow> (s\<lparr>Valid := False\<rparr>, None)
      | Some j \<Rightarrow>
          (case j of
             JNull \<Rightarrow> (s\<lparr>Valid := False\<rparr>, None)
           | JNumber l \<Rightarrow>
               if float64_overflows l then (s\<lparr>Valid := False\<rparr>, None)
               else (s\<lparr>Valid := (String s \<noteq> '''')\<rparr>, None)
           | JString x \<Rightarrow> (s\<lparr>String := x, Valid := (x \<noteq> '''')\<rparr>, None)
           | JObject ms \<Rightarrow>
               (let (s', err) = Unmarshal_NullString data s
                in (s'\<lparr>Valid := (err = None \<and> String s' \<noteq> '''')\<rparr>, err))
           | _ \<Rightarrow> (s\<lparr>Valid := (String s \<noteq> '''')\<rparr>, None)))"
  by (simp add: UnmarshalJSON_def Unmarshal_interface_def split: option.splits json.splits)

text \<open>
  Claim C1. On a zero-valued receiver, \<open>UnmarshalJSON\<close> of the JSON string \<open>"hello"\<close>
  gives the present value \<open>hello\<close>; of the empty JSON string, of \<open>null\<close> and of the
  number \<open>42\<close> it gives the null value; none of the four returns an error.
\<close>

theorem UnmarshalJSON_literals:
  "UnmarshalJSON zero_String ''\"hello\"'' = (\<lparr>String = ''hello'', Valid = True\<rparr>, None) \<and>
   UnmarshalJSON zero_String ''\"\"'' = (\<lparr>String = '''', Valid = False\<rparr>, None) \<and>
   UnmarshalJSON zero_String ''null'' = (\<lparr>String = '''', Valid = False\<rparr>, None) \<and>
   UnmarshalJSON zero_String ''42'' = (\<lparr>String = '''', Valid = False\<rparr>, None)"
  by code_simp

text \<open>
  Claim C2. \<open>UnmarshalJSON\<close> returns an error exactly when the input is a JSON object and
  decoding that object into the embedded \<open>NullString\<close> fails; the error it returns is
  then the error of that decoding, and for every other input it returns none.
\<close>

theorem UnmarshalJSON_error_iff:
  "(snd (UnmarshalJSON s data) \<noteq> None) =
     ((\<exists>ms. json_parse data = Some (JObject ms)) \<and>
      snd (Unmarshal_NullString data s) \<noteq> None) \<and>
   snd (UnmarshalJSON s data) =
     (if \<exists>ms. json_parse data = Some (JObject ms) then snd (Unmarshal_NullString data s)
      else None)"
  by (simp add: UnmarshalJSON_by_shape split: option.splits json.splits prod.splits)

theorem UnmarshalJSON_error_iff_witness:
  "snd (UnmarshalJSON zero_String ''{\"String\":1}'') = Some (UnmarshalTypeError ''number'') \<and>
   json_parse ''{\"String\":1}'' = Some (JObject [(''String'', JNumber ''1'')]) \<and>
   snd (Unmarshal_NullString ''{\"String\":1}'' zero_String)
     = Some (UnmarshalTypeError ''number'') \<and>
   snd (UnmarshalJSON zero_String ''[1}'') = None \<and>
   json_parse ''[1}'' = None"
proof -
  have p: "json_parse ''{\"String\":1}'' = Some (JObject [(''String'', JNumber ''1'')])"
    by code_simp
  have q: "json_parse ''[1}'' = None"
    by code_simp
  have n: "snd (Unmarshal_NullString ''{\"String\":1}'' zero_String)
             = Some (UnmarshalTypeError ''number'')"
    by code_simp
  from UnmarshalJSON_error_iff [of zero_String "''{\"String\":1}''"]
       UnmarshalJSON_error_iff [of zero_String "''[1}''"] p q n
  show ?thesis by simp
qed

text \<open>
  Claim C3, as amended. The constructors \<open>StringFrom\<close> and \<open>StringFromPtr\<close> and the
  decoders \<open>UnmarshalJSON\<close> and \<open>UnmarshalText\<close> produce a value that is invalid whenever
  its string is empty, whatever the receiver held before. The raw constructor \<open>NewString\<close>
  stores its arguments as they are: its value satisfies the invariant exactly when the
  string is non-empty or the flag is false.
\<close>

theorem normalizing_operations:
  "normalized (StringFrom x) \<and>
   normalized (StringFromPtr p) \<and>
   normalized (fst (UnmarshalJSON s data)) \<and>
   normalized (fst (UnmarshalText s text)) \<and>
   normalized (NewString x v) = (x \<noteq> '''' \<or> \<not> v)"
  by (auto simp: normalized_def StringFrom_def StringFromPtr_def NewString_def UnmarshalText_def
      UnmarshalJSON_def Let_def split: option.splits iface.splits prod.splits)

theorem normalizing_operations_witness:
  "normalized (StringFrom '''') \<and>
   normalized (StringFromPtr (Some '''')) \<and>
   normalized (fst (UnmarshalJSON (NewString '''' True) ''\"\"'')) \<and>
   normalized (fst (UnmarshalText (NewString '''' True) '''')) \<and>
   \<not> normalized (NewString '''' True) \<and>
   fst (UnmarshalJSON (NewString '''' True) ''\"\"'') = \<lparr>String = '''', Valid = False\<rparr>"
proof -
  have "fst (UnmarshalJSON (NewString '''' True) ''\"\"'') = \<lparr>String = '''', Valid = False\<rparr>"
    by code_simp
  with normalizing_operations [of "''''" "Some ''''" "NewString '''' True" "''\"\"''" "''''" True]
  show ?thesis by simp
qed

text \<open>
  Claim C3 as stated, for every constructor, fails: \<open>NewString\<close> of the empty string and
  \<open>true\<close> is a valid value with an empty string.
\<close>

theorem NewString_not_normalized:
  "String (NewString '''' True) = '''' \<and> Valid (NewString '''' True) \<and>
   \<not> normalized (NewString '''' True)"
  by (simp add: normalized_def NewString_def)

text \<open>
  Claim C4. Whatever the receiver held before, \<open>UnmarshalJSON\<close> of the object with
  \<open>String\<close> \<open>abc\<close> and \<open>Valid\<close> true gives the present value \<open>abc\<close>, and of the object
  with an empty \<open>String\<close> and \<open>Valid\<close> true gives the null value with an empty string,
  both with no error: the library had stored the empty string and set the flag to true,
  and the last assignment of \<open>UnmarshalJSON\<close> overrides the flag.
\<close>

theorem UnmarshalJSON_structured:
  "UnmarshalJSON s ''{\"String\":\"abc\",\"Valid\":true}''
     = (\<lparr>String = ''abc'', Valid = True\<rparr>, None) \<and>
   UnmarshalJSON s ''{\"String\":\"\",\"Valid\":true}''
     = (\<lparr>String = '''', Valid = False\<rparr>, None) \<and>
   Unmarshal_NullString ''{\"String\":\"\",\"Valid\":true}'' s
     = (\<lparr>String = '''', Valid = True\<rparr>, None)"
proof -
  have p1: "json_parse ''{\"String\":\"abc\",\"Valid\":true}''
              = Some (JObject [(''String'', JString ''abc''), (''Valid'', JBool True)])"
    by code_simp
  have p2: "json_parse ''{\"String\":\"\",\"Valid\":true}''
              = Some (JObject [(''String'', JString ''''), (''Valid'', JBool True)])"
    by code_simp
  have f1: "lookup_field ''String'' = Some Field_String"
    by code_simp
  have f2: "lookup_field ''Valid'' = Some Field_Valid"
    by code_simp
  have n1: "Unmarshal_NullString ''{\"String\":\"abc\",\"Valid\":true}'' s
              = (\<lparr>String = ''abc'', Valid = True\<rparr>, None)"
    by (simp add: Unmarshal_NullString_def p1 store_member_def f1 f2)
  have n2: "Unmarshal_NullString ''{\"String\":\"\",\"Valid\":true}'' s
              = (\<lparr>String = '''', Valid = True\<rparr>, None)"
    by (simp add: Unmarshal_NullString_def p2 store_member_def f1 f2)
  show ?thesis
    by (simp add: UnmarshalJSON_by_shape p1 p2 n1 n2)
qed

theorem UnmarshalJSON_structured_witness:
  "UnmarshalJSON (NewString ''old'' True) ''{\"String\":\"abc\",\"Valid\":true}''
     = (\<lparr>String = ''abc'', Valid = True\<rparr>, None) \<and>
   UnmarshalJSON (NewString ''old'' True) ''{\"String\":\"\",\"Valid\":true}''
     = (\<lparr>String = '''', Valid = False\<rparr>, None) \<and>
   Unmarshal_NullString ''{\"String\":\"\",\"Valid\":true}'' (NewString ''old'' False)
     = (\<lparr>String = '''', Valid = True\<rparr>, None)"
  using UnmarshalJSON_structured [of "NewString ''old'' True"]
        UnmarshalJSON_structured [of "NewString ''old'' False"]
  by simp

text \<open>
  Claim C5. When the input is an object and its decoding succeeds, the value is valid
  exactly when the decoded string is non-empty, whatever flag the object carried: the
  object with \<open>String\<close> \<open>x\<close> and \<open>Valid\<close> false gives the present value \<open>x\<close>, although
  the library had set the flag to false.
\<close>

theorem UnmarshalJSON_structured_flag_ignored:
  "(json_parse data = Some (JObject ms) \<and> Unmarshal_NullString data s = (s', None) \<longrightarrow>
      UnmarshalJSON s data = (s'\<lparr>Valid := (String s' \<noteq> '''')\<rparr>, None)) \<and>
   UnmarshalJSON zero_String ''{\"String\":\"x\",\"Valid\":false}''
     = (\<lparr>String = ''x'', Valid = True\<rparr>, None)"
proof -
  have "UnmarshalJSON zero_String ''{\"String\":\"x\",\"Valid\":false}''
          = (\<lparr>String = ''x'', Valid = True\<rparr>, None)"
    by code_simp
  then show ?thesis
    by (simp add: UnmarshalJSON_by_shape)
qed

theorem UnmarshalJSON_structured_flag_ignored_witness:
  "json_parse ''{\"String\":\"x\",\"Valid\":false}''
     = Some (JObject [(''String'', JString ''x''), (''Valid'', JBool False)]) \<and>
   Unmarshal_NullString ''{\"String\":\"x\",\"Valid\":false}'' zero_String
     = (\<lparr>String = ''x'', Valid = False\<rparr>, None) \<and>
   UnmarshalJSON zero_String ''{\"String\":\"x\",\"Valid\":false}''
     = (\<lparr>String = ''x'', Valid = False\<rparr>\<lparr>Valid := True\<rparr>, None)"
proof -
  have p: "json_parse ''{\"String\":\"x\",\"Valid\":false}''
             = Some (JObject [(''String'', JString ''x''), (''Valid'', JBool False)])"
    by code_simp
  have n: "Unmarshal_NullString ''{\"String\":\"x\",\"Valid\":false}'' zero_String
             = (\<lparr>String = ''x'', Valid = False\<rparr>, None)"
    by code_simp
  from UnmarshalJSON_structured_flag_ignored
         [of "''{\"String\":\"x\",\"Valid\":false}''"
             "[(''String'', JString ''x''), (''Valid'', JBool False)]"
             zero_String "\<lparr>String = ''x'', Valid = False\<rparr>"] p n
  show ?thesis by simp
qed

text \<open>
  Claim C6. When the input is not valid JSON, the first call of the library fails and
  leaves \<^verbatim>\<open>nil\<close> in the interface, and \<open>UnmarshalJSON\<close> takes the \<^verbatim>\<open>nil\<close> case: it
  clears the flag, leaves the string and returns no error. The inputs \<open>{\<close> and
  \<open>not json\<close> are not valid JSON.
\<close>

theorem UnmarshalJSON_invalid_input:
  "(json_parse data = None \<longrightarrow>
      Unmarshal_interface data = (INil, Some SyntaxError) \<and>
      UnmarshalJSON s data = (s\<lparr>Valid := False\<rparr>, None)) \<and>
   json_parse ''{'' = None \<and> json_parse ''not json'' = None"
proof -
  have "json_parse ''{'' = None" "json_parse ''not json'' = None"
    by code_simp+
  then show ?thesis
    by (simp add: UnmarshalJSON_def Unmarshal_interface_def)
qed

theorem UnmarshalJSON_invalid_input_witness:
  "UnmarshalJSON (NewString ''old'' True) ''{'' = (\<lparr>String = ''old'', Valid = False\<rparr>, None) \<and>
   UnmarshalJSON (NewString ''old'' True) ''not json''
     = (\<lparr>String = ''old'', Valid = False\<rparr>, None) \<and>
   Unmarshal_interface ''{'' = (INil, Some SyntaxError)"
  using UnmarshalJSON_invalid_input [of "''{''" "NewString ''old'' True"]
        UnmarshalJSON_invalid_input [of "''not json''" "NewString ''old'' True"]
  by (simp add: NewString_def)

subsection \<open>Text encoding and accessors\<close>

text \<open>
  Claim C7. Text round trip: for a present value (valid, with a non-empty string), decoding
  the bytes that \<open>MarshalText\<close> produced gives the same value back with no error, whatever
  the receiver held before; for a null value \<open>MarshalText\<close> produces no bytes, and
  decoding no bytes gives a null value.
\<close>

theorem text_round_trip:
  "(Valid s \<and> String s \<noteq> '''' \<longrightarrow>
      UnmarshalText r (fst (MarshalText s)) = (s, None)) \<and>
   (\<not> Valid s \<longrightarrow>
      fst (MarshalText s) = [] \<and>
      UnmarshalText r [] = (\<lparr>String = '''', Valid = False\<rparr>, None))"
  by (simp add: MarshalText_def UnmarshalText_def)

theorem text_round_trip_witness:
  "UnmarshalText zero_String (fst (MarshalText (NewString ''abc'' True)))
     = (NewString ''abc'' True, None) \<and>
   fst (MarshalText (NewString ''abc'' True)) = ''abc'' \<and>
   fst (MarshalText (NewString ''abc'' False)) = [] \<and>
   UnmarshalText (NewString ''abc'' False) [] = (\<lparr>String = '''', Valid = False\<rparr>, None)"
  using text_round_trip [of "NewString ''abc'' True" zero_String]
        text_round_trip [of "NewString ''abc'' False" "NewString ''abc'' False"]
  by (simp add: NewString_def MarshalText_def)

text \<open>
  Claim C8. \<open>MarshalText\<close> returns no bytes and no error for an invalid value, exactly the
  bytes of the string and no error for a valid one; it never returns an error.
\<close>

theorem MarshalText_result:
  "MarshalText s = (if Valid s then String s else [], None) \<and> snd (MarshalText s) = None"
  by (simp add: MarshalText_def)

theorem MarshalText_result_witness:
  "MarshalText (NewString ''abc'' True) = (''abc'', None) \<and>
   MarshalText (NewString ''abc'' False) = ('''', None)"
  using MarshalText_result [of "NewString ''abc'' True"]
        MarshalText_result [of "NewString ''abc'' False"]
  by (simp add: NewString_def)

text \<open>
  Claim C9. \<open>Ptr\<close> of \<open>StringFrom s\<close> is the nil pointer when \<open>s\<close> is empty, and otherwise
  a pointer to \<open>s\<close>.
\<close>

theorem Ptr_StringFrom:
  "Ptr (StringFrom s) = (if s = '''' then None else Some s)"
  by (simp add: Ptr_def StringFrom_def NewString_def)

theorem Ptr_StringFrom_witness:
  "Ptr (StringFrom '''') = None \<and> Ptr (StringFrom ''abc'') = Some ''abc''"
  using Ptr_StringFrom [of "''''"] Ptr_StringFrom [of "''abc''"]
  by simp

text \<open>
  Claim C10. \<open>IsZero\<close> is true exactly when the value is invalid or its string is empty;
  so it is true of the present empty string that the raw constructor builds.
\<close>

theorem IsZero_iff:
  "IsZero s = (\<not> Valid s \<or> String s = '''') \<and> IsZero (NewString '''' True)"
  by (simp add: IsZero_def NewString_def)

theorem IsZero_iff_witness:
  "IsZero (NewString '''' False) \<and> IsZero (NewString '''' True) \<and>
   IsZero (NewString ''abc'' False) \<and> \<not> IsZero (NewString ''abc'' True)"
  using IsZero_iff [of "NewString '''' False"] IsZero_iff [of "NewString ''abc'' False"]
        IsZero_iff [of "NewString ''abc'' True"]
  by (simp add: NewString_def)

end
